theory Spec2Isabelle
  imports Complex_Main "HOL-Library.AList"
begin

section \<open>Numeric library primitives used by the preprocessor\<close>

text \<open>
  Arrays of floating-point numbers are modelled as lists of reals; the theory reasons in
  exact arithmetic. The library routines the preprocessor calls (numpy, scipy) are written
  out from their documented definitions.
\<close>

subsection \<open>Beta-binomial probability mass function\<close>

text \<open>
  \<^verbatim>\<open>betabinom(n, a, b).pmf(k)\<close> is \<open>C(n,k) B(k+a, n-k+b) / B(a,b)\<close> for \<open>0 \<le> k \<le> n\<close> and
  \<open>0\<close> elsewhere. For \<open>a, b > 0\<close> the quotient of Beta functions is the quotient of rising
  factorials \<open>a^(k) b^(n-k) / (a+b)^(n)\<close>, which is the form used here. (Outside
  \<open>a, b > 0\<close> the library yields not-a-number; the model is meant for \<open>a, b > 0\<close>.)
\<close>

definition betabinom_pmf :: "nat \<Rightarrow> real \<Rightarrow> real \<Rightarrow> nat \<Rightarrow> real" where
  "betabinom_pmf n a b k =
     (if k \<le> n
      then of_nat (n choose k) * pochhammer a k * pochhammer b (n - k) / pochhammer (a + b) n
      else 0)"

subsection \<open>Percentiles\<close>

text \<open>
  \<^verbatim>\<open>np.percentile(values, q)\<close> with the default linear interpolation on a non-empty array:
  the virtual index is \<open>q/100 * (n-1)\<close>; the result interpolates between the sorted
  elements below and above it. On an empty array the result is not-a-number, which the
  model represents by \<open>None\<close>.
\<close>

definition percentile :: "real list \<Rightarrow> nat \<Rightarrow> real option" where
  "percentile values q =
     (if values = [] then None
      else let srt = sort values;
               n = length values;
               lo = (q * (n - 1)) div 100;
               hi = min (lo + 1) (n - 1);
               gamma = real ((q * (n - 1)) mod 100) / 100
           in Some (srt ! lo + (srt ! hi - srt ! lo) * gamma))"

section \<open>Alignment prior\<close>

text \<open>
  \<^verbatim>\<open>beta_binomial_prior_distribution(phoneme_count, mel_count, scaling_factor)\<close>:
  the loop runs \<open>i = 1..M\<close>; each pass appends the probability mass function
  evaluated at \<open>x = 0..P-1\<close>. The result is the list of rows.
\<close>

definition beta_binomial_prior_distribution :: "nat \<Rightarrow> nat \<Rightarrow> real \<Rightarrow> real list list" where
  "beta_binomial_prior_distribution phoneme_count mel_count scaling_factor =
     (let P = phoneme_count; M = mel_count; x = [0..<P]
      in map (\<lambda>i. let a = scaling_factor * real i;
                      b = scaling_factor * real (M + 1 - i)
                  in map (betabinom_pmf P a b) x)
             [1..<M + 1])"

section \<open>Outlier filter\<close>

text \<open>
  \<^verbatim>\<open>remove_outlier(values)\<close>: keeps the entries strictly between the two fences. With
  not-a-number percentiles (empty input) both comparisons are false for every entry.
\<close>

definition remove_outlier :: "real list \<Rightarrow> real list" where
  "remove_outlier values =
     (case (percentile values 25, percentile values 75) of
        (Some p25, Some p75) \<Rightarrow>
          let lower = p25 - 1.5 * (p75 - p25);
              upper = p75 + 1.5 * (p75 - p25)
          in filter (\<lambda>v. v > lower \<and> v < upper) values
      | _ \<Rightarrow> [])"


section \<open>Data model\<close>

text \<open>Exceptions that the modelled code paths can raise.\<close>

datatype error =
    UnboundLocalError | ValueError | FileNotFoundError | IndexError
  | AttributeError | AssertionError | OverflowError

text \<open>
  A two-dimensional array with its shape kept explicitly, so that a matrix with no
  columns still knows its number of rows (and the other way round).
\<close>

record mat =
  nrows :: nat
  ncols :: nat
  entries :: "real list list"

definition mat_T :: "mat \<Rightarrow> mat" where
  "mat_T m = \<lparr>nrows = ncols m, ncols = nrows m,
              entries = map (\<lambda>j. map (\<lambda>r. r ! j) (entries m)) [0..<ncols m]\<rparr>"

text \<open>Python's \<^verbatim>\<open>xs[:d]\<close> for an integer \<open>d\<close> of either sign, and \<^verbatim>\<open>xs[lo:hi]\<close>.\<close>

definition py_take :: "int \<Rightarrow> 'a list \<Rightarrow> 'a list" where
  "py_take d xs = (if 0 \<le> d then take (nat d) xs else take (length xs - nat (- d)) xs)"

definition py_slice :: "nat \<Rightarrow> nat \<Rightarrow> 'a list \<Rightarrow> 'a list" where
  "py_slice lo hi xs = drop lo (take hi xs)"

definition mat_take_cols :: "int \<Rightarrow> mat \<Rightarrow> mat" where
  "mat_take_cols d m =
     \<lparr>nrows = nrows m, ncols = length (py_take d [0..<ncols m]),
      entries = map (py_take d) (entries m)\<rparr>"

text \<open>
  \<^verbatim>\<open>np.min(m, axis=1)\<close> and \<^verbatim>\<open>np.max(m, axis=1)\<close>: a reduction without identity over an
  axis of length zero raises.
\<close>

fun py_min :: "real list \<Rightarrow> error + real" where
  "py_min [] = Inl ValueError"
| "py_min (x # xs) = Inr (fold min xs x)"

fun py_max :: "real list \<Rightarrow> error + real" where
  "py_max [] = Inl ValueError"
| "py_max (x # xs) = Inr (fold max xs x)"

definition np_min_axis1 :: "mat \<Rightarrow> error + real list" where
  "np_min_axis1 m =
     (if ncols m = 0 then Inl ValueError else Inr (map (\<lambda>r. fold min (tl r) (hd r)) (entries m)))"

definition np_max_axis1 :: "mat \<Rightarrow> error + real list" where
  "np_max_axis1 m =
     (if ncols m = 0 then Inl ValueError else Inr (map (\<lambda>r. fold max (tl r) (hd r)) (entries m)))"

text \<open>The preprocessing configuration (the fields the modelled code reads).\<close>

record config =
  dataset :: string
  in_dir :: string
  val_size :: nat
  n_mel_channels :: nat
  hop_length :: nat
  max_wav_value :: real
  beta_binomial_scaling_factor :: real
  energy_normalization :: bool

text \<open>
  The external collaborators: grapheme-to-phoneme conversion, the text encoder, the
  waveform decoder, the silence trimmer (returning the sample interval), the peak
  normaliser, the mel/energy extractor (mel as channels by frames), the pitch
  extractor, and the seeded shuffle. They are parameters of the model.
\<close>

record collab =
  grapheme_to_phoneme :: "string \<Rightarrow> string list"
  text_to_sequence :: "string \<Rightarrow> int list"
  librosa_load :: "string \<Rightarrow> real list"
  librosa_trim :: "real list \<Rightarrow> nat \<times> nat"
  librosa_normalize :: "real list \<Rightarrow> real list"
  TorchSTFT :: "real list \<Rightarrow> mat \<times> real list"
  get_pitch :: "real list \<Rightarrow> mat \<Rightarrow> real list"
  shuffle :: "string list \<Rightarrow> string list"

text \<open>Values that may be infinite or not-a-number.\<close>

datatype npfloat = Fin real | PosInf | NegInf | NaN

text \<open>The contents of \<^verbatim>\<open>stats.json\<close>.\<close>

record stats =
  stats_f0 :: "npfloat list"
  stats_energy :: "real list"
  spec_min :: "npfloat list"
  spec_max :: "npfloat list"
  stats_max_seq_len :: nat

text \<open>
  The output directory: one association list per artifact directory (file name to
  array), and the corpus files as optional contents (\<open>None\<close>: the file does not exist).
\<close>

record fs =
  text_dir :: "(string \<times> int list) list"
  wav_dir :: "(string \<times> real list) list"
  mel_dir :: "(string \<times> mat) list"
  f0_dir :: "(string \<times> real list) list"
  energy_dir :: "(string \<times> real list) list"
  attn_prior_dir :: "(string \<times> real list list) list"
  speakers_json :: "(string \<times> nat) list option"
  stats_json :: "stats option"
  train_txt :: "string option"
  val_txt :: "string option"

definition isfile :: "(string \<times> 'a) list \<Rightarrow> string \<Rightarrow> bool" where
  "isfile dir name = (map_of dir name \<noteq> None)"

section \<open>String handling\<close>

text \<open>
  Strings are lists of 8-bit characters; the white-space and word-character classes are
  the ASCII ones (the phoneme alphabet and the manifest of the corpus are ASCII).
  \<^verbatim>\<open>str.strip\<close>, \<^verbatim>\<open>str.split\<close> on a separator and \<^verbatim>\<open>str.join\<close> follow.
\<close>

definition isspace :: "char \<Rightarrow> bool" where
  "isspace c = (c \<in> set [CHR '' '', CHR 0x09, CHR 0x0A, CHR 0x0B, CHR 0x0C, CHR 0x0D])"

definition is_word :: "char \<Rightarrow> bool" where
  "is_word c =
     (let k = (of_char c :: nat)
      in k = 95 \<or> (97 \<le> k \<and> k \<le> 122) \<or> (65 \<le> k \<and> k \<le> 90) \<or> (48 \<le> k \<and> k \<le> 57))"

definition strip :: "string \<Rightarrow> string" where
  "strip s = rev (dropWhile isspace (rev (dropWhile isspace s)))"

fun split_on :: "char \<Rightarrow> string \<Rightarrow> string list" where
  "split_on c [] = [[]]"
| "split_on c (x # xs) =
     (if x = c then [] # split_on c xs
      else (let r = split_on c xs in (x # hd r) # tl r))"

fun join :: "string \<Rightarrow> string list \<Rightarrow> string" where
  "join sep [] = []"
| "join sep [w] = w"
| "join sep (w # ws) = w @ sep @ join sep ws"

text \<open>
  \<^verbatim>\<open>re.sub(r"\{[^\w\s]?\}", "{sp}", phones)\<close>: scanning from the left, an opening brace
  followed by at most one character that is neither a word character nor white space
  and then a closing brace is replaced by \<^verbatim>\<open>{sp}\<close>.
\<close>

fun sub_sp :: "string \<Rightarrow> string" where
  "sub_sp [] = []"
| "sub_sp [c] = [c]"
| "sub_sp [c, d] = (if c = CHR ''{'' \<and> d = CHR ''}'' then ''{sp}'' else [c, d])"
| "sub_sp (c # d # e # rest) =
     (if c = CHR ''{'' \<and> \<not> is_word d \<and> \<not> isspace d \<and> e = CHR ''}''
        then ''{sp}'' @ sub_sp rest
      else if c = CHR ''{'' \<and> d = CHR ''}'' then ''{sp}'' @ sub_sp (e # rest)
      else c # sub_sp (d # e # rest))"

text \<open>\<^verbatim>\<open>phones.replace("}{", " ")\<close>.\<close>

fun replace_sep :: "string \<Rightarrow> string" where
  "replace_sep (c # d # cs) =
     (if c = CHR ''}'' \<and> d = CHR ''{'' then CHR '' '' # replace_sep cs
      else c # replace_sep (d # cs))"
| "replace_sep cs = cs"

text \<open>\<^verbatim>\<open>f.readlines()\<close>: the lines of a file, each with its line terminator.\<close>

fun readlines_aux :: "string \<Rightarrow> string \<Rightarrow> string list" where
  "readlines_aux cur [] = (if cur = [] then [] else [rev cur])"
| "readlines_aux cur (c # cs) =
     (if c = CHR 0x0A then rev (c # cur) # readlines_aux [] cs
      else readlines_aux (c # cur) cs)"

definition readlines :: "string \<Rightarrow> string list" where
  "readlines s = readlines_aux [] s"

text \<open>The loop \<^verbatim>\<open>for m in xs: f.write(m + "\n")\<close> on a freshly opened file.\<close>

definition write_lines :: "string list \<Rightarrow> string" where
  "write_lines ms = concat (map (\<lambda>m. m @ [CHR 0x0A]) ms)"


section \<open>The utterance processor\<close>

definition match_librosa_to_scipy :: "real list \<Rightarrow> real list" where
  "match_librosa_to_scipy l_wave = map (\<lambda>x. x * 2 ^ (16 - 1)) l_wave"

text \<open>
  \<^verbatim>\<open>load_wav\<close>: decode, trim, rescale; the duration in frames is the trimmed length divided
  by the hop length and truncated. The quotient is a floating-point division, so a hop
  length of zero gives an infinity or not-a-number, which the conversion to an integer
  rejects.
\<close>

definition load_wav :: "config \<Rightarrow> collab \<Rightarrow> string \<Rightarrow> error + (real list \<times> int)" where
  "load_wav C E full_path =
     (let data = librosa_load E full_path;
          index = librosa_trim E data;
          data = py_slice (fst index) (snd index) data;
          data = match_librosa_to_scipy data;
          diff = int (snd index) - int (fst index)
      in if hop_length C = 0
         then Inl (if diff = 0 then ValueError else OverflowError)
         else Inr (data, sgn diff * (\<bar>diff\<bar> div int (hop_length C))))"

text \<open>Stage 1, text: the phone string of the transcript and the encoded text.\<close>

definition phones_of :: "collab \<Rightarrow> string \<Rightarrow> string" where
  "phones_of E raw_text =
     (let phone = grapheme_to_phoneme E raw_text;
          phones = ''{'' @ join ''}{'' phone @ ''}'';
          phones = sub_sp phones
      in replace_sep phones)"

definition text_stage :: "collab \<Rightarrow> fs \<Rightarrow> string \<Rightarrow> string \<Rightarrow> fs \<times> int list" where
  "text_stage E F text_filename phones =
     (if \<not> isfile (text_dir F) text_filename
      then (let text = text_to_sequence E phones
            in (F\<lparr>text_dir := AList.update text_filename text (text_dir F)\<rparr>, text))
      else (F, the (map_of (text_dir F) text_filename)))"

text \<open>
  Stage 2, waveform. The local variable \<^verbatim>\<open>duration\<close> is assigned only when the
  waveform is computed; the model carries it as an option, \<open>None\<close> meaning unassigned.
\<close>

definition wav_stage ::
  "config \<Rightarrow> collab \<Rightarrow> fs \<Rightarrow> string \<Rightarrow> string \<Rightarrow> error + (fs \<times> real list \<times> int option)" where
  "wav_stage C E F wav_filename wav_path =
     (if \<not> isfile (wav_dir F) wav_filename
      then (case load_wav C E wav_path of
              Inl e \<Rightarrow> Inl e
            | Inr (wav, duration) \<Rightarrow>
                let wav = map (\<lambda>x. x / max_wav_value C) wav;
                    wav = map (\<lambda>x. x * 0.95) (librosa_normalize E wav)
                in Inr (F\<lparr>wav_dir := AList.update wav_filename wav (wav_dir F)\<rparr>,
                        wav, Some duration))
      else Inr (F, the (map_of (wav_dir F) wav_filename), None))"

text \<open>
  Stage 3, mel and energy. The mel matrix is held as channels by frames and stored
  transposed. The extractor runs before \<^verbatim>\<open>duration\<close> is read.
\<close>

definition mel_stage ::
  "collab \<Rightarrow> fs \<Rightarrow> string \<Rightarrow> string \<Rightarrow> real list \<Rightarrow> int option
     \<Rightarrow> error + (fs \<times> mat \<times> real list)" where
  "mel_stage E F mel_filename energy_filename wav duration =
     (if \<not> isfile (mel_dir F) mel_filename
      then (let (mel_spectrogram, energy) = TorchSTFT E wav
            in case duration of
                 None \<Rightarrow> Inl UnboundLocalError
               | Some d \<Rightarrow>
                   let mel_spectrogram = mat_take_cols d mel_spectrogram;
                       energy = py_take d energy;
                       F = F\<lparr>mel_dir := AList.update mel_filename (mat_T mel_spectrogram) (mel_dir F)\<rparr>;
                       F = F\<lparr>energy_dir := AList.update energy_filename energy (energy_dir F)\<rparr>
                   in Inr (F, mel_spectrogram, energy))
      else (let mel_spectrogram = mat_T (the (map_of (mel_dir F) mel_filename))
            in case map_of (energy_dir F) energy_filename of
                 None \<Rightarrow> Inl FileNotFoundError
               | Some energy \<Rightarrow> Inr (F, mel_spectrogram, energy)))"

text \<open>Stage 4, pitch.\<close>

definition f0_stage ::
  "collab \<Rightarrow> fs \<Rightarrow> string \<Rightarrow> real list \<Rightarrow> mat \<Rightarrow> int option \<Rightarrow> error + (fs \<times> real list)" where
  "f0_stage E F f0_filename wav mel_spectrogram duration =
     (if \<not> isfile (f0_dir F) f0_filename
      then (let f0 = get_pitch E wav (mat_T mel_spectrogram)
            in case duration of
                 None \<Rightarrow> Inl UnboundLocalError
               | Some d \<Rightarrow>
                   let f0 = py_take d f0
                   in Inr (F\<lparr>f0_dir := AList.update f0_filename f0 (f0_dir F)\<rparr>, f0))
      else Inr (F, the (map_of (f0_dir F) f0_filename)))"

text \<open>
  Stage 5, alignment prior: the generator is called with the second dimension of the
  (channels by frames) mel matrix as its first argument and the text length as its
  second.
\<close>

definition attn_prior_stage ::
  "config \<Rightarrow> fs \<Rightarrow> string \<Rightarrow> mat \<Rightarrow> int list \<Rightarrow> fs \<times> real list list" where
  "attn_prior_stage C F attn_prior_filename mel_spectrogram text =
     (if \<not> isfile (attn_prior_dir F) attn_prior_filename
      then (let attn_prior = beta_binomial_prior_distribution
                               (ncols mel_spectrogram) (length text)
                               (beta_binomial_scaling_factor C)
            in (F\<lparr>attn_prior_dir :=
                     AList.update attn_prior_filename attn_prior (attn_prior_dir F)\<rparr>,
                attn_prior))
      else (F, the (map_of (attn_prior_dir F) attn_prior_filename)))"

text \<open>
  The value returned for one utterance: the manifest line, f0, the outlier-filtered
  energy, the number of frames, the number of samples, and the per-channel minimum and
  maximum of the mel matrix.
\<close>

type_synonym utt_result =
  "string \<times> real list \<times> real list \<times> nat \<times> nat \<times> real list \<times> real list"

text \<open>
  \<^verbatim>\<open>process_utterance\<close>. The result is an exception, or the changed output directory
  with the returned value, where \<open>None\<close> stands for Python's \<^verbatim>\<open>None\<close>.
\<close>

definition process_utterance ::
  "config \<Rightarrow> collab \<Rightarrow> fs \<Rightarrow> string \<Rightarrow> string \<Rightarrow> string \<Rightarrow> string
     \<Rightarrow> error + (fs \<times> utt_result option)" where
  "process_utterance C E F raw_text wav_path speaker basename =
     (let text_filename = speaker @ ''-text-'' @ basename @ ''.npy'';
          wav_filename = speaker @ ''-wav-'' @ basename @ ''.wav'';
          mel_filename = speaker @ ''-mel-'' @ basename @ ''.npy'';
          f0_filename = speaker @ ''-f0-'' @ basename @ ''.npy'';
          energy_filename = speaker @ ''-energy-'' @ basename @ ''.npy'';
          attn_prior_filename = speaker @ ''-attn_prior-'' @ basename @ ''.npy'';
          phones = phones_of E raw_text;
          (F, text) = text_stage E F text_filename phones
      in case wav_stage C E F wav_filename wav_path of
           Inl e \<Rightarrow> Inl e
         | Inr (F, wav, duration) \<Rightarrow>
       (case mel_stage E F mel_filename energy_filename wav duration of
           Inl e \<Rightarrow> Inl e
         | Inr (F, mel_spectrogram, energy) \<Rightarrow>
       (case f0_stage E F f0_filename wav mel_spectrogram duration of
           Inl e \<Rightarrow> Inl e
         | Inr (F, f0) \<Rightarrow>
       (let (F, attn_prior) = attn_prior_stage C F attn_prior_filename mel_spectrogram text
        in case np_min_axis1 mel_spectrogram of
             Inl e \<Rightarrow> Inl e
           | Inr m_min \<Rightarrow>
         (case np_max_axis1 mel_spectrogram of
             Inl e \<Rightarrow> Inl e
           | Inr m_max \<Rightarrow>
               Inr (F, Some (join ''|'' [basename, speaker, phones, raw_text],
                             f0, remove_outlier energy, ncols mel_spectrogram,
                             length wav, m_min, m_max)))))))"


section \<open>The statistics aggregator\<close>

subsection \<open>Library routines\<close>

text \<open>\<^verbatim>\<open>np.mean\<close> and \<^verbatim>\<open>np.std\<close> (population form); not-a-number on an empty array.\<close>

definition np_mean :: "real list \<Rightarrow> npfloat" where
  "np_mean xs = (if xs = [] then NaN else Fin (sum_list xs / real (length xs)))"

definition np_std :: "real list \<Rightarrow> npfloat" where
  "np_std xs =
     (if xs = [] then NaN
      else let m = sum_list xs / real (length xs)
           in Fin (sqrt (sum_list (map (\<lambda>x. \<bar>x - m\<bar> ^ 2) xs) / real (length xs))))"

text \<open>
  \<^verbatim>\<open>np.minimum\<close> and \<^verbatim>\<open>np.maximum\<close> on single values, and the pairing of two
  one-dimensional arrays under broadcasting: equal lengths pair up, a length of one is
  stretched, anything else raises.
\<close>

fun np_minimum :: "npfloat \<Rightarrow> npfloat \<Rightarrow> npfloat" where
  "np_minimum NaN _ = NaN"
| "np_minimum _ NaN = NaN"
| "np_minimum NegInf _ = NegInf"
| "np_minimum _ NegInf = NegInf"
| "np_minimum PosInf y = y"
| "np_minimum x PosInf = x"
| "np_minimum (Fin x) (Fin y) = Fin (min x y)"

fun np_maximum :: "npfloat \<Rightarrow> npfloat \<Rightarrow> npfloat" where
  "np_maximum NaN _ = NaN"
| "np_maximum _ NaN = NaN"
| "np_maximum PosInf _ = PosInf"
| "np_maximum _ PosInf = PosInf"
| "np_maximum NegInf y = y"
| "np_maximum x NegInf = x"
| "np_maximum (Fin x) (Fin y) = Fin (max x y)"

definition broadcast2 :: "('a \<Rightarrow> 'b \<Rightarrow> 'c) \<Rightarrow> 'a list \<Rightarrow> 'b list \<Rightarrow> error + 'c list" where
  "broadcast2 f xs ys =
     (if length xs = length ys then Inr (map2 f xs ys)
      else if length xs = 1 then Inr (map (f (hd xs)) ys)
      else if length ys = 1 then Inr (map (\<lambda>x. f x (hd ys)) xs)
      else Inl ValueError)"

text \<open>
  The standard scaler: number of samples seen, running mean and running (population)
  variance, merged batch by batch. Before the first batch the fitted attributes do not
  exist (\<open>None\<close>). The scale is the standard deviation, with a zero replaced by one.
  The attributes \<^verbatim>\<open>mean_\<close>, \<^verbatim>\<open>var_\<close> and \<^verbatim>\<open>scale_\<close> are written with the suffix \<open>attr\<close>.
\<close>

record scaler =
  n_samples_seen :: nat
  mean_attr :: real
  var_attr :: real

definition sk_partial_fit :: "scaler option \<Rightarrow> real list \<Rightarrow> scaler" where
  "sk_partial_fit sc X =
     (let last_count = (case sc of None \<Rightarrow> 0 | Some s \<Rightarrow> n_samples_seen s);
          last_mean = (case sc of None \<Rightarrow> 0 | Some s \<Rightarrow> mean_attr s);
          last_var = (case sc of None \<Rightarrow> 0 | Some s \<Rightarrow> var_attr s);
          last_sum = last_mean * real last_count;
          new_sum = sum_list X;
          new_count = length X;
          updated_count = last_count + new_count;
          updated_mean = (last_sum + new_sum) / real updated_count;
          T = new_sum / real new_count;
          new_unnormalized_variance = sum_list (map (\<lambda>x. (x - T) ^ 2) X);
          last_unnormalized_variance = last_var * real last_count;
          last_over_new_count = real last_count / real new_count;
          updated_unnormalized_variance =
            (if last_count = 0 then new_unnormalized_variance
             else last_unnormalized_variance + new_unnormalized_variance
                  + last_over_new_count / real updated_count
                    * (last_sum / last_over_new_count - new_sum) ^ 2)
      in \<lparr>n_samples_seen = updated_count, mean_attr = updated_mean,
          var_attr = updated_unnormalized_variance / real updated_count\<rparr>)"

definition scale_attr :: "scaler \<Rightarrow> real" where
  "scale_attr s = (if sqrt (var_attr s) = 0 then 1 else sqrt (var_attr s))"

subsection \<open>Helpers of the corpus scan\<close>

definition partial_fit :: "scaler option \<Rightarrow> real list \<Rightarrow> scaler option" where
  "partial_fit scaler value =
     (if length value > 0 then Some (sk_partial_fit scaler value) else scaler)"

text \<open>
  \<^verbatim>\<open>compute_f0_stats\<close>: the two results are assigned only under the guard; returning
  them unassigned raises.
\<close>

definition compute_f0_stats :: "real list list \<Rightarrow> error + (npfloat \<times> npfloat)" where
  "compute_f0_stats f0s =
     (if length f0s > 0
      then (let f0s = concat f0s;
                f0s = filter (\<lambda>x. x \<noteq> 0) f0s;
                f0_mean = np_mean f0s;
                f0_std = np_std f0s
            in Inr (f0_mean, f0_std))
      else Inl UnboundLocalError)"

text \<open>The largest finite double, \<^verbatim>\<open>np.finfo(np.float64).max\<close>; the smallest is its negative.\<close>

definition float64_max :: real where
  "float64_max = (2 - 1 / 2 ^ 52) * 2 ^ 1023"

text \<open>
  \<^verbatim>\<open>normalize\<close> (named \<open>normalize_files\<close> here): the loop over the directory listing. Each file
  is loaded, transformed
  and saved back; then the running extrema are updated with the built-in \<^verbatim>\<open>max\<close> and
  \<^verbatim>\<open>min\<close> of the transformed values, which raise on an empty sequence.
\<close>

fun normalize_loop ::
  "real \<Rightarrow> real \<Rightarrow> string list \<Rightarrow> (string \<times> real list) list \<Rightarrow> real \<Rightarrow> real
     \<Rightarrow> error + ((string \<times> real list) list \<times> real \<times> real)" where
  "normalize_loop mean std [] dir min_value max_value = Inr (dir, min_value, max_value)"
| "normalize_loop mean std (filename # rest) dir min_value max_value =
     (case map_of dir filename of
        None \<Rightarrow> Inl FileNotFoundError
      | Some loaded \<Rightarrow>
          let values = map (\<lambda>v. (v - mean) / std) loaded;
              dir = AList.update filename values dir
          in case py_max values of
               Inl e \<Rightarrow> Inl e
             | Inr mx \<Rightarrow>
                 let max_value = max max_value mx
                 in case py_min values of
                      Inl e \<Rightarrow> Inl e
                    | Inr mn \<Rightarrow> normalize_loop mean std rest dir (min min_value mn) max_value)"

definition normalize_files ::
  "(string \<times> real list) list \<Rightarrow> real \<Rightarrow> real
     \<Rightarrow> error + ((string \<times> real list) list \<times> real \<times> real)" where
  "normalize_files dir mean std =
     (let max_value = - float64_max;
          min_value = float64_max
      in normalize_loop mean std (map fst dir) dir min_value max_value)"

definition compute_energy_stats ::
  "config \<Rightarrow> fs \<Rightarrow> scaler option \<Rightarrow> error + (fs \<times> real \<times> real \<times> real \<times> real)" where
  "compute_energy_stats C F energy_scaler =
     (case (if energy_normalization C
            then (case energy_scaler of
                    None \<Rightarrow> Inl AttributeError
                  | Some s \<Rightarrow> Inr (mean_attr s, scale_attr s))
            else Inr (0, 1)) of
        Inl e \<Rightarrow> Inl e
      | Inr (energy_mean, energy_std) \<Rightarrow>
          (case normalize_files (energy_dir F) energy_mean energy_std of
             Inl e \<Rightarrow> Inl e
           | Inr (dir, energy_min, energy_max) \<Rightarrow>
               Inr (F\<lparr>energy_dir := dir\<rparr>, energy_min, energy_max, energy_mean, energy_std)))"


section \<open>The corpus scan\<close>

text \<open>
  \<^verbatim>\<open>val_prior_names\<close>, evaluated when the preprocessor is constructed: the first field of
  every line of an existing \<^verbatim>\<open>val.txt\<close>, or \<^verbatim>\<open>None\<close>. The names are only tested for
  membership afterwards.
\<close>

definition val_prior_names :: "fs \<Rightarrow> string list option" where
  "val_prior_names F =
     (case val_txt F of
        Some content \<Rightarrow> Some (remdups (map (\<lambda>m. hd (split_on CHR ''|'' m)) (readlines content)))
      | None \<Rightarrow> None)"

text \<open>The running values of the scan.\<close>

record acc =
  acc_out :: "string list"
  acc_train :: "string list"
  acc_val :: "string list"
  max_seq_len :: nat
  mel_min :: "npfloat list"
  mel_max :: "npfloat list"
  f0s :: "real list list"
  energy_scaler :: "scaler option"
  n_wavs :: nat

definition init_acc :: "config \<Rightarrow> acc" where
  "init_acc C =
     \<lparr>acc_out = [], acc_train = [], acc_val = [], max_seq_len = 0,
      mel_min = replicate (n_mel_channels C) PosInf,
      mel_max = replicate (n_mel_channels C) NegInf,
      f0s = [], energy_scaler = None, n_wavs = 0\<rparr>"

text \<open>The step \<^verbatim>\<open>if len(f0) > 0: f0s.append(f0)\<close> of the loop.\<close>

definition append_f0 :: "real list list \<Rightarrow> real list \<Rightarrow> real list list" where
  "append_f0 acc_f0s f0 = (if length f0 > 0 then acc_f0s @ [f0] else acc_f0s)"

definition path_join :: "string \<Rightarrow> string \<Rightarrow> string" where
  "path_join a b =
     (if b \<noteq> [] \<and> hd b = CHR ''/'' then b
      else if a = [] \<or> last a = CHR ''/'' then a @ b
      else a @ ''/'' @ b)"

text \<open>
  One pass of the loop over the lines of \<^verbatim>\<open>metadata.csv\<close>. A returned \<^verbatim>\<open>None\<close> skips
  the record; an exception is not caught and leaves the loop.
\<close>

definition scan_line ::
  "config \<Rightarrow> collab \<Rightarrow> string list option \<Rightarrow> fs \<times> acc \<Rightarrow> string \<Rightarrow> error + (fs \<times> acc)" where
  "scan_line C E val_prior st line =
     (let F = fst st; A = snd st;
          parts = split_on CHR ''|'' (strip line)
      in if length parts < 3 then Inl IndexError
         else
          (let basename = parts ! 0;
               text = parts ! 2;
               wav_path = path_join (path_join (in_dir C) ''wavs'') (basename @ ''.wav'')
           in case process_utterance C E F text wav_path (dataset C) basename of
                Inl e \<Rightarrow> Inl e
              | Inr (F, None) \<Rightarrow> Inr (F, A)
              | Inr (F, Some (info, f0, energy, n_mel, n_wav, m_min, m_max)) \<Rightarrow>
                  let A = (case val_prior of
                             Some names \<Rightarrow>
                               if basename \<notin> set names
                               then A\<lparr>acc_train := acc_train A @ [info]\<rparr>
                               else A\<lparr>acc_val := acc_val A @ [info]\<rparr>
                           | None \<Rightarrow> A\<lparr>acc_out := acc_out A @ [info]\<rparr>);
                      A = (if n_mel > max_seq_len A then A\<lparr>max_seq_len := n_mel\<rparr> else A);
                      A = A\<lparr>f0s := append_f0 (f0s A) f0\<rparr>;
                      A = A\<lparr>energy_scaler := partial_fit (energy_scaler A) energy\<rparr>
                  in case broadcast2 np_minimum (mel_min A) (map Fin m_min) of
                       Inl e \<Rightarrow> Inl e
                     | Inr mn \<Rightarrow>
                   (case broadcast2 np_maximum (mel_max A) (map Fin m_max) of
                       Inl e \<Rightarrow> Inl e
                     | Inr mx \<Rightarrow>
                         Inr (F, A\<lparr>mel_min := mn, mel_max := mx,
                                   n_wavs := n_wavs A + n_wav\<rparr>))))"

fun scan_lines ::
  "config \<Rightarrow> collab \<Rightarrow> string list option \<Rightarrow> fs \<times> acc \<Rightarrow> string list \<Rightarrow> error + (fs \<times> acc)" where
  "scan_lines C E val_prior st [] = Inr st"
| "scan_lines C E val_prior st (line # rest) =
     (case scan_line C E val_prior st line of
        Inl e \<Rightarrow> Inl e
      | Inr st' \<Rightarrow> scan_lines C E val_prior st' rest)"

text \<open>
  \<^verbatim>\<open>build_from_path\<close>, for a preprocessor whose \<^verbatim>\<open>val_prior\<close> was fixed at construction.
  The argument \<open>metadata\<close> is the content of \<^verbatim>\<open>metadata.csv\<close>. The result is the changed
  output directory and the returned list.
\<close>

definition build_from_path ::
  "config \<Rightarrow> collab \<Rightarrow> string list option \<Rightarrow> string \<Rightarrow> fs \<Rightarrow> error + (fs \<times> string list)" where
  "build_from_path C E val_prior metadata F =
     (let speakers = [(dataset C, 0)]
      in case scan_lines C E val_prior (F, init_acc C) (readlines metadata) of
           Inl e \<Rightarrow> Inl e
         | Inr (F, A) \<Rightarrow>
       (case compute_f0_stats (f0s A) of
           Inl e \<Rightarrow> Inl e
         | Inr f0s_stats \<Rightarrow>
       (case compute_energy_stats C F (energy_scaler A) of
           Inl e \<Rightarrow> Inl e
         | Inr (F, energy_min, energy_max, energy_mean, energy_std) \<Rightarrow>
       (let F = F\<lparr>speakers_json := Some speakers\<rparr>;
            F = F\<lparr>stats_json := Some
                  \<lparr>stats_f0 = [fst f0s_stats, snd f0s_stats],
                   stats_energy = [energy_min, energy_max, energy_mean, energy_std],
                   spec_min = mel_min A, spec_max = mel_max A,
                   stats_max_seq_len = max_seq_len A\<rparr>\<rparr>
        in case (case val_prior of
                   Some names \<Rightarrow>
                     if length (acc_out A) \<noteq> 0 then Inl AssertionError
                     else Inr (acc_out A, shuffle E (acc_train A), acc_val A)
                 | None \<Rightarrow>
                     if \<not> (length (acc_train A) = 0 \<and> length (acc_val A) = 0)
                     then Inl AssertionError
                     else (let out = shuffle E (acc_out A)
                           in Inr (out, drop (val_size C) out, take (val_size C) out))) of
             Inl e \<Rightarrow> Inl e
           | Inr (out, train, val) \<Rightarrow>
               Inr (F\<lparr>train_txt := Some (write_lines train),
                       val_txt := Some (write_lines val)\<rparr>, out)))))"

text \<open>
  One full run: the preprocessor is constructed on the current output directory (which
  fixes \<^verbatim>\<open>val_prior\<close>) and \<^verbatim>\<open>build_from_path\<close> is called.
\<close>

definition run_pipeline :: "config \<Rightarrow> collab \<Rightarrow> string \<Rightarrow> fs \<Rightarrow> error + (fs \<times> string list)" where
  "run_pipeline C E metadata F = build_from_path C E (val_prior_names F) metadata F"


section \<open>Reference notions and sample data\<close>

text \<open>Population mean and standard deviation of a sample, and the fences of the IQR rule.\<close>

definition population_mean :: "real list \<Rightarrow> real" where
  "population_mean xs = (\<Sum>x\<leftarrow>xs. x) / real (length xs)"

definition population_std :: "real list \<Rightarrow> real" where
  "population_std xs = sqrt ((\<Sum>x\<leftarrow>xs. (x - population_mean xs)\<^sup>2) / real (length xs))"

definition iqr_lower :: "real list \<Rightarrow> real" where
  "iqr_lower v = the (percentile v 25) - 1.5 * (the (percentile v 75) - the (percentile v 25))"

definition iqr_upper :: "real list \<Rightarrow> real" where
  "iqr_upper v = the (percentile v 75) + 1.5 * (the (percentile v 75) - the (percentile v 25))"

text \<open>The position of the first largest entry of a non-empty list (\<^verbatim>\<open>np.argmax\<close>).\<close>

definition argmax :: "real list \<Rightarrow> nat" where
  "argmax xs = hd (filter (\<lambda>i. xs ! i = fold max (tl xs) (hd xs)) [0..<length xs])"

text \<open>
  The energy directory after the re-normalization pass, as the pass is described: every
  element of every file replaced by \<open>(original - mean) / std\<close>; and all values of a
  directory.
\<close>

definition renorm_entry :: "real \<Rightarrow> real \<Rightarrow> string \<times> real list \<Rightarrow> string \<times> real list" where
  "renorm_entry mean std e = (fst e, map (\<lambda>v. (v - mean) / std) (snd e))"

definition renormalized ::
  "real \<Rightarrow> real \<Rightarrow> (string \<times> real list) list \<Rightarrow> (string \<times> real list) list" where
  "renormalized mean std dir = map (renorm_entry mean std) dir"

definition all_values :: "(string \<times> real list) list \<Rightarrow> real list" where
  "all_values dir = concat (map snd dir)"

text \<open>
  A small corpus for concrete runs: one configuration, one set of collaborators, and an
  empty output directory. The waveform of utterance \<open>s\<close> has three samples, of which the
  trimmer keeps one (less than one hop of two samples); every other waveform has six
  samples, of which it keeps four. The extractor returns three frames.
\<close>

definition C0 :: config where
  "C0 = \<lparr>dataset = ''L'', in_dir = ''c'', val_size = 1, n_mel_channels = 1, hop_length = 2,
         max_wav_value = 32768, beta_binomial_scaling_factor = 1, energy_normalization = True\<rparr>"

definition E0 :: collab where
  "E0 = \<lparr>grapheme_to_phoneme = (\<lambda>_. [''HH'', ''AY'']),
         text_to_sequence = (\<lambda>_. [1, 2, 3]),
         librosa_load = (\<lambda>p. if p = ''c/wavs/s.wav'' then [0, 1 / 2, 0]
                              else [0, 1 / 2, 1 / 4, 1 / 8, 1 / 16, 0]),
         librosa_trim = (\<lambda>d. if length d = 3 then (1, 2) else (1, 5)),
         librosa_normalize = (\<lambda>xs. map (\<lambda>x. x / fold max (map abs xs) 0) xs),
         TorchSTFT = (\<lambda>_. (\<lparr>nrows = 1, ncols = 3, entries = [[5, 6, 7]]\<rparr>, [1, 3, 9])),
         get_pitch = (\<lambda>_ _. [100, 0, 50]),
         shuffle = rev\<rparr>"

definition F0 :: fs where
  "F0 = \<lparr>text_dir = [], wav_dir = [], mel_dir = [], f0_dir = [], energy_dir = [],
         attn_prior_dir = [], speakers_json = None, stats_json = None,
         train_txt = None, val_txt = None\<rparr>"

text \<open>Two manifests: utterance \<open>a\<close> alone, and utterance \<open>s\<close> followed by \<open>a\<close>.\<close>

definition M0 :: string where
  "M0 = ''a|x|hi\<newline>''"

definition M1 :: string where
  "M1 = ''s|x|hi\<newline>a|x|hi\<newline>''"

text \<open>An output directory that holds the waveform of utterance \<open>a\<close> and nothing else.\<close>

definition F_wav_only :: fs where
  "F_wav_only = F0\<lparr>wav_dir := [(''L-wav-a.wav'', [19 / 20, 19 / 40, 19 / 80, 19 / 160])]\<rparr>"

text \<open>
  The states of a first and a second run over \<open>M0\<close>: the output directory and the running
  values after the first scan, the directory after the first run, the running values
  after the second scan, and the directory after the second run.
\<close>

definition F_scanned :: fs where
  "F_scanned =
     \<lparr>text_dir = [(''L-text-a.npy'', [1, 2, 3])],
      wav_dir = [(''L-wav-a.wav'', [19 / 20, 19 / 40, 19 / 80, 19 / 160])],
      mel_dir = [(''L-mel-a.npy'', \<lparr>nrows = 2, ncols = 1, entries = [[5], [6]]\<rparr>)],
      f0_dir = [(''L-f0-a.npy'', [100, 0])],
      energy_dir = [(''L-energy-a.npy'', [1, 3])],
      attn_prior_dir =
        [(''L-attn_prior-a.npy'', [[3 / 5, 3 / 10], [3 / 10, 2 / 5], [1 / 10, 3 / 10]])],
      speakers_json = None, stats_json = None, train_txt = None, val_txt = None\<rparr>"

definition A_first :: acc where
  "A_first = \<lparr>acc_out = [''a|L|{HH AY}|hi''], acc_train = [], acc_val = [],
         max_seq_len = 2, mel_min = [Fin 5], mel_max = [Fin 6], f0s = [[100, 0]],
         energy_scaler = Some \<lparr>n_samples_seen = 2, mean_attr = 2, var_attr = 1\<rparr>,
         n_wavs = 4\<rparr>"

definition stats_first :: stats where
  "stats_first = \<lparr>stats_f0 = [Fin 100, Fin 0], stats_energy = [- 1, 1, 2, 1],
      spec_min = [Fin 5], spec_max = [Fin 6], stats_max_seq_len = 2\<rparr>"

definition F_first :: fs where
  "F_first = F_scanned\<lparr>energy_dir := [(''L-energy-a.npy'', [- 1, 1])],
      speakers_json := Some [(''L'', 0)], stats_json := Some stats_first,
      train_txt := Some [], val_txt := Some ''a|L|{HH AY}|hi\<newline>''\<rparr>"

definition A_second :: acc where
  "A_second = \<lparr>acc_out = [], acc_train = [], acc_val = [''a|L|{HH AY}|hi''],
         max_seq_len = 2, mel_min = [Fin 5], mel_max = [Fin 6], f0s = [[100, 0]],
         energy_scaler = Some \<lparr>n_samples_seen = 2, mean_attr = 0, var_attr = 1\<rparr>,
         n_wavs = 4\<rparr>"

definition F_second :: fs where
  "F_second = F_first\<lparr>stats_json := Some (stats_first\<lparr>stats_energy := [- 1, 1, 0, 1]\<rparr>)\<rparr>"

section \<open>Properties of the library primitives\<close>

text \<open>The mass function sums to one over its support \<open>0..n\<close> and is non-negative.\<close>

lemma betabinom_pmf_sum:
  assumes "0 < a" "0 < b"
  shows "(\<Sum>k\<le>n. betabinom_pmf n a b k) = 1"
proof -
  have nz: "pochhammer (a + b) n \<noteq> 0"
    using assms by (simp add: pochhammer_eq_0_iff)
  have "(\<Sum>k\<le>n. betabinom_pmf n a b k)
        = (\<Sum>k\<le>n. of_nat (n choose k) * pochhammer a k * pochhammer b (n - k))
          / pochhammer (a + b) n"
    by (simp add: betabinom_pmf_def sum_divide_distrib)
  also have "(\<Sum>k\<le>n. of_nat (n choose k) * pochhammer a k * pochhammer b (n - k))
             = pochhammer (a + b) n"
    by (rule pochhammer_binomial_sum [symmetric])
  finally show ?thesis using nz by simp
qed

lemma betabinom_pmf_nonneg:
  assumes "0 < a" "0 < b"
  shows "0 \<le> betabinom_pmf n a b k"
proof -
  have "0 < pochhammer a k" "0 < pochhammer b (n - k)" "0 < pochhammer (a + b) n"
    using assms by (simp_all add: pochhammer_pos)
  then show ?thesis by (simp add: betabinom_pmf_def)
qed

text \<open>
  Summed over \<open>x = 0..n-1\<close> only, the mass function misses the mass at \<open>x = n\<close>, which is
  positive.
\<close>

lemma betabinom_pmf_partial_sum:
  assumes "0 < a" "0 < b"
  shows "(\<Sum>k<n. betabinom_pmf n a b k) = 1 - pochhammer a n / pochhammer (a + b) n"
proof -
  have "(\<Sum>k\<le>n. betabinom_pmf n a b k)
        = (\<Sum>k<n. betabinom_pmf n a b k) + betabinom_pmf n a b n"
    by (simp add: lessThan_Suc_atMost [symmetric])
  moreover have "betabinom_pmf n a b n = pochhammer a n / pochhammer (a + b) n"
    by (simp add: betabinom_pmf_def)
  ultimately show ?thesis using betabinom_pmf_sum [OF assms, of n] by simp
qed

lemma sort_replicate: "sort (replicate n (c::real)) = replicate n c"
  by (simp add: sorted_replicate sort_key_id_if_sorted)

lemma percentile_replicate:
  assumes "q \<le> 100"
  shows "percentile (replicate (Suc n) c) q = Some c"
proof -
  have "q * n \<le> 100 * n" using assms by simp
  then have "(q * n) div 100 \<le> n"
    by (metis div_le_mono nonzero_mult_div_cancel_left zero_neq_numeral)
  then have lo: "(q * n) div 100 < Suc n" by simp
  have hi: "min ((q * n) div 100 + 1) n < Suc n" by simp
  have srt: "sort (replicate (Suc n) c) = replicate (Suc n) c"
    by (rule sort_replicate)
  have a: "replicate (Suc n) c ! ((q * n) div 100) = c"
    using lo by (rule nth_replicate)
  have b: "replicate (Suc n) c ! (min ((q * n) div 100 + 1) n) = c"
    using hi by (rule nth_replicate)
  have ne: "replicate (Suc n) c \<noteq> []" by simp
  show ?thesis
    unfolding percentile_def Let_def srt using a b ne
    by (simp del: replicate_Suc replicate.simps)
qed

lemma percentile_nonempty: "values \<noteq> [] \<Longrightarrow> \<exists>p. percentile values q = Some p"
  by (simp add: percentile_def Let_def)

lemma remove_outlier_filter:
  assumes "values \<noteq> []"
  shows "remove_outlier values = filter (\<lambda>v. iqr_lower values < v \<and> v < iqr_upper values) values"
proof -
  obtain p25 where p25: "percentile values 25 = Some p25"
    using percentile_nonempty [OF assms] by blast
  obtain p75 where p75: "percentile values 75 = Some p75"
    using percentile_nonempty [OF assms] by blast
  show ?thesis
    by (simp add: remove_outlier_def p25 p75 iqr_lower_def iqr_upper_def Let_def)
qed


lemma bbpd_length: "length (beta_binomial_prior_distribution P M s) = M"
  by (simp add: beta_binomial_prior_distribution_def)

lemma bbpd_row:
  assumes "i < M"
  shows "beta_binomial_prior_distribution P M s ! i
         = map (betabinom_pmf P (s * real (i + 1)) (s * real (M + 1 - (i + 1)))) [0..<P]"
proof -
  have len: "i < length [1..<M + 1]" using assms by simp
  have idx: "[1..<M + 1] ! i = i + 1" using assms by (simp del: upt_Suc)
  show ?thesis
    unfolding beta_binomial_prior_distribution_def Let_def
    by (simp only: nth_map [OF len] idx)
qed

lemma bbpd_row_length:
  "row \<in> set (beta_binomial_prior_distribution P M s) \<Longrightarrow> length row = P"
  by (auto simp: beta_binomial_prior_distribution_def Let_def)

lemma bbpd_3_2:
  "beta_binomial_prior_distribution 3 2 1 = [[2 / 5, 3 / 10, 1 / 5], [1 / 10, 1 / 5, 3 / 10]]"
  by (simp add: beta_binomial_prior_distribution_def betabinom_pmf_def pochhammer_rec
        numeral_eq_Suc upt_rec binomial_Suc_Suc)

text \<open>
  Every row of the generated matrix sums to one minus the mass at \<open>x = P\<close>, hence to less
  than one.
\<close>

lemma prior_row_sum:
  assumes "0 < s" "i < M"
  shows "sum_list (beta_binomial_prior_distribution P M s ! i)
         = 1 - pochhammer (s * real (i + 1)) P / pochhammer (s * real (M + 1)) P"
proof -
  have a: "0 < s * real (i + 1)" and b: "0 < s * real (M + 1 - (i + 1))"
    using assms by simp_all
  have ab: "s * real (i + 1) + s * real (M + 1 - (i + 1)) = s * real (M + 1)"
    using assms(2) by (simp add: algebra_simps of_nat_diff)
  have "sum_list (beta_binomial_prior_distribution P M s ! i)
        = (\<Sum>k<P. betabinom_pmf P (s * real (i + 1)) (s * real (M + 1 - (i + 1))) k)"
    by (simp only: bbpd_row [OF assms(2)] interv_sum_list_conv_sum_set_nat atLeast_upt [symmetric]
          lessThan_atLeast0)
  also have "\<dots> = 1 - pochhammer (s * real (i + 1)) P
                      / pochhammer (s * real (i + 1) + s * real (M + 1 - (i + 1))) P"
    by (rule betabinom_pmf_partial_sum [OF a b])
  finally show ?thesis by (simp only: ab)
qed

lemma prior_row_sum_less_one:
  assumes "0 < s" "i < M"
  shows "sum_list (beta_binomial_prior_distribution P M s ! i) < 1"
proof -
  have "0 < pochhammer (s * real (i + 1)) P" "0 < pochhammer (s * real (M + 1)) P"
    using assms by (simp_all add: pochhammer_pos)
  then show ?thesis by (simp add: prior_row_sum [OF assms])
qed

lemma percentile_sevens:
  "percentile [7, 7, 7] 25 = Some 7" "percentile [7, 7, 7] 75 = Some 7"
  by (simp_all add: percentile_def)

section \<open>The alignment-prior generator\<close>

text \<open>
  Claim C2. For a scale \<open>s > 0\<close> the generator returns \<open>M\<close> rows of \<open>P\<close> entries each; entry
  \<open>x\<close> of row \<open>i\<close> (counted from one) is the beta-binomial mass function with \<open>P\<close> trials
  and shape parameters \<open>s * i\<close> and \<open>s * (M + 1 - i)\<close> at \<open>x\<close>. The result is a function of
  \<open>(P, M, s)\<close> alone. For \<open>P = 0\<close> it is \<open>M\<close> empty rows and for \<open>M = 0\<close> it has no rows;
  no case of the generator raises.
\<close>

theorem alignment_prior_generator:
  assumes "0 < s"
  shows "length (beta_binomial_prior_distribution P M s) = M
       \<and> (\<forall>i<M. length (beta_binomial_prior_distribution P M s ! i) = P
              \<and> (\<forall>x<P. beta_binomial_prior_distribution P M s ! i ! x
                         = betabinom_pmf P (s * real (i + 1)) (s * real (M + 1 - (i + 1))) x))
       \<and> (P = 0 \<longrightarrow> beta_binomial_prior_distribution P M s = replicate M [])
       \<and> (M = 0 \<longrightarrow> beta_binomial_prior_distribution P M s = [])"
proof (intro conjI allI impI)
  show "length (beta_binomial_prior_distribution P M s) = M" by (rule bbpd_length)
next
  fix i assume "i < M"
  then show "length (beta_binomial_prior_distribution P M s ! i) = P"
    by (simp add: bbpd_row)
next
  fix i x assume "i < M" "x < P"
  then show "beta_binomial_prior_distribution P M s ! i ! x
             = betabinom_pmf P (s * real (i + 1)) (s * real (M + 1 - (i + 1))) x"
    by (simp add: bbpd_row)
next
  assume "P = 0"
  then show "beta_binomial_prior_distribution P M s = replicate M []"
    by (simp add: beta_binomial_prior_distribution_def map_replicate_const)
next
  assume "M = 0"
  then show "beta_binomial_prior_distribution P M s = []"
    by (simp add: beta_binomial_prior_distribution_def)
qed

theorem alignment_prior_generator_witness:
  "(0::real) < 1 \<and> length (beta_binomial_prior_distribution 3 2 1) = 2
   \<and> beta_binomial_prior_distribution 3 2 1 ! 0 ! 0 = betabinom_pmf 3 1 2 0
   \<and> beta_binomial_prior_distribution 0 2 1 = [[], []]
   \<and> beta_binomial_prior_distribution 3 0 1 = []"
  using alignment_prior_generator [of 1 3 2] alignment_prior_generator [of 1 0 2]
    alignment_prior_generator [of 1 3 0]
  by (simp add: numeral_eq_Suc)

text \<open>
  Claim C3, as stated: for \<open>P = 3\<close>, \<open>M = 2\<close>, \<open>s = 1\<close> every row sums to one within
  \<open>10\<^sup>-\<^sup>6\<close>. The first row sums to \<open>9/10\<close>: the mass at \<open>x = 3\<close> is not evaluated.
\<close>

theorem prior_3_2_row_sum_counterexample:
  "\<not> \<bar>sum_list (beta_binomial_prior_distribution 3 2 1 ! 0) - 1\<bar> \<le> 1 / 10 ^ 6"
  by (simp add: bbpd_3_2)

text \<open>
  Claim C3, amended: for \<open>P = 3\<close>, \<open>M = 2\<close>, \<open>s = 1\<close> the rows are \<open>[2/5, 3/10, 1/5]\<close> and
  \<open>[1/10, 1/5, 3/10]\<close>; they sum to \<open>9/10\<close> and \<open>3/5\<close>, all entries are non-negative, and
  the first largest entry of row 1 (position 0) does not come after that of row 2
  (position 2).
\<close>

theorem prior_3_2_rows:
  "beta_binomial_prior_distribution 3 2 1 = [[2 / 5, 3 / 10, 1 / 5], [1 / 10, 1 / 5, 3 / 10]]
   \<and> map sum_list (beta_binomial_prior_distribution 3 2 1) = [9 / 10, 3 / 5]
   \<and> list_all (list_all (\<lambda>v. 0 \<le> v)) (beta_binomial_prior_distribution 3 2 1)
   \<and> map argmax (beta_binomial_prior_distribution 3 2 1) = [0, 2]
   \<and> argmax (beta_binomial_prior_distribution 3 2 1 ! 0)
       \<le> argmax (beta_binomial_prior_distribution 3 2 1 ! 1)"
  by (simp add: bbpd_3_2 argmax_def upt_rec)

section \<open>The outlier filter\<close>

text \<open>
  Claim C8. On a non-empty array the filter keeps exactly the entries strictly between
  \<open>p25 - 1.5 * (p75 - p25)\<close> and \<open>p75 + 1.5 * (p75 - p25)\<close>, in their order; on
  \<open>[1, 2, 3, 4, 100]\<close> it drops \<open>100\<close> and keeps the rest; and on a non-empty array all of
  whose entries lie outside the strict fences it returns the empty array.
\<close>

theorem iqr_filter:
  "(values \<noteq> [] \<longrightarrow>
      remove_outlier values
      = filter (\<lambda>v. iqr_lower values < v \<and> v < iqr_upper values) values)
   \<and> remove_outlier [1, 2, 3, 4, 100] = [1, 2, 3, 4]
   \<and> (values \<noteq> [] \<and> (\<forall>v \<in> set values. \<not> (iqr_lower values < v \<and> v < iqr_upper values))
        \<longrightarrow> remove_outlier values = [])"
proof (intro conjI impI)
  assume "values \<noteq> []"
  then show "remove_outlier values
      = filter (\<lambda>v. iqr_lower values < v \<and> v < iqr_upper values) values"
    by (rule remove_outlier_filter)
next
  show "remove_outlier [1, 2, 3, 4, 100] = [1, 2, 3, 4]"
    by (simp add: remove_outlier_def percentile_def)
next
  assume a: "values \<noteq> []
             \<and> (\<forall>v \<in> set values. \<not> (iqr_lower values < v \<and> v < iqr_upper values))"
  then have "remove_outlier values
      = filter (\<lambda>v. iqr_lower values < v \<and> v < iqr_upper values) values"
    by (simp add: remove_outlier_filter)
  also have "\<dots> = []" using a by (simp add: filter_empty_conv)
  finally show "remove_outlier values = []" .
qed

theorem iqr_filter_witness:
  "[7, 7, 7] \<noteq> ([] :: real list)
   \<and> \<not> (iqr_lower [7, 7, 7] < 7 \<and> 7 < iqr_upper [7, 7, 7])
   \<and> remove_outlier [7, 7, 7] = []"
  using iqr_filter [of "[7, 7, 7]"]
  by (simp add: iqr_lower_def iqr_upper_def percentile_sevens)

text \<open>
  Claim C10. A non-empty array whose entries are all equal is filtered to the empty
  array, since both fences equal the common value; the energy accumulator is then left
  as it was.
\<close>

theorem constant_energy_filtered_out:
  "remove_outlier (replicate (Suc n) c) = []
   \<and> partial_fit sc (remove_outlier (replicate (Suc n) c)) = sc"
proof -
  have "remove_outlier (replicate (Suc n) c) = []"
    unfolding remove_outlier_def
    by (simp add: percentile_replicate del: replicate_Suc replicate.simps)
  then show ?thesis by (simp add: partial_fit_def)
qed


section \<open>Corpus statistics\<close>

lemma foldl_append_f0:
  "foldl append_f0 acc per_utt = acc @ filter (\<lambda>f. f \<noteq> []) per_utt"
  by (induction per_utt arbitrary: acc) (simp_all add: append_f0_def)

lemma concat_filter_nonempty: "concat (filter (\<lambda>f. f \<noteq> []) xss) = concat xss"
  by (induction xss) simp_all

lemma np_mean_population: "xs \<noteq> [] \<Longrightarrow> np_mean xs = Fin (population_mean xs)"
  by (simp add: np_mean_def population_mean_def)

lemma np_std_population: "xs \<noteq> [] \<Longrightarrow> np_std xs = Fin (population_std xs)"
  by (simp add: np_std_def population_std_def population_mean_def Let_def)

text \<open>
  The scan extends the collected arrays by at most one array per manifest line, with the
  step \<open>append_f0\<close>.
\<close>

lemma scan_line_f0s:
  assumes "scan_line C E vp st line = Inr st'"
  shows "f0s (snd st') = f0s (snd st) \<or> (\<exists>f0. f0s (snd st') = append_f0 (f0s (snd st)) f0)"
  using assms
  by (auto simp: scan_line_def Let_def split: if_splits sum.splits option.splits prod.splits)

lemma scan_lines_f0s:
  assumes "scan_lines C E vp st lines = Inr st'"
  shows "\<exists>per_utt. length per_utt \<le> length lines
           \<and> f0s (snd st') = foldl append_f0 (f0s (snd st)) per_utt"
  using assms
proof (induction lines arbitrary: st)
  case Nil
  then show ?case by (intro exI [of _ "[]"]) simp
next
  case (Cons line lines)
  from Cons.prems obtain st1 where
    one: "scan_line C E vp st line = Inr st1" and
    more: "scan_lines C E vp st1 lines = Inr st'"
    by (auto split: sum.splits)
  from Cons.IH [OF more] obtain ps where
    ps: "length ps \<le> length lines" "f0s (snd st') = foldl append_f0 (f0s (snd st1)) ps"
    by blast
  from scan_line_f0s [OF one] show ?case
  proof
    assume "f0s (snd st1) = f0s (snd st)"
    with ps show ?thesis by (intro exI [of _ ps]) simp
  next
    assume "\<exists>f0. f0s (snd st1) = append_f0 (f0s (snd st)) f0"
    then obtain f0 where "f0s (snd st1) = append_f0 (f0s (snd st)) f0" ..
    with ps show ?thesis by (intro exI [of _ "f0 # ps"]) simp
  qed
qed

text \<open>
  Claim C7. With the per-utterance f0 arrays collected as the scan collects them, the F0
  statistics are the population mean and the population standard deviation of all
  arrays concatenated with the zero entries removed, whenever a non-zero entry exists.
  Without one, no number is returned: the result is not-a-number twice when some array
  is non-empty, and the computation raises when every array is empty.
\<close>

theorem f0_statistics:
  "compute_f0_stats (foldl append_f0 [] per_utt) =
     (if filter (\<lambda>x. x \<noteq> 0) (concat per_utt) \<noteq> []
      then Inr (Fin (population_mean (filter (\<lambda>x. x \<noteq> 0) (concat per_utt))),
                Fin (population_std (filter (\<lambda>x. x \<noteq> 0) (concat per_utt))))
      else if filter (\<lambda>f. f \<noteq> []) per_utt \<noteq> [] then Inr (NaN, NaN)
      else Inl UnboundLocalError)"
proof (cases "filter (\<lambda>f. f \<noteq> []) per_utt = []")
  case True
  then have "concat per_utt = []"
    using concat_filter_nonempty [of per_utt] by simp
  then have "filter (\<lambda>x. x \<noteq> 0) (concat per_utt) = []"
    by (simp only: filter.simps)
  with True show ?thesis
    by (simp only: compute_f0_stats_def foldl_append_f0 append_Nil list.size
          less_irrefl if_False simp_thms if_True)
next
  case False
  show ?thesis
  proof (cases "filter (\<lambda>x. x \<noteq> 0) (concat per_utt) = []")
    case True
    with False show ?thesis
      by (simp add: compute_f0_stats_def foldl_append_f0 concat_filter_nonempty
            np_mean_def np_std_def Let_def)
  next
    case voiced: False
    with False show ?thesis
      by (simp add: compute_f0_stats_def foldl_append_f0 concat_filter_nonempty
            np_mean_population np_std_population Let_def)
  qed
qed



lemma py_max_Max: "xs \<noteq> [] \<Longrightarrow> py_max xs = Inr (Max (set xs))"
proof (cases xs)
  case (Cons a list)
  then show ?thesis using Max.set_eq_fold [of a list] by simp
qed simp

lemma py_min_Min: "xs \<noteq> [] \<Longrightarrow> py_min xs = Inr (Min (set xs))"
proof (cases xs)
  case (Cons a list)
  then show ?thesis using Min.set_eq_fold [of a list] by simp
qed simp

lemma Min_insert_min_Un:
  fixes m :: real
  assumes "finite A" "A \<noteq> {}" "finite B"
  shows "Min (insert (min m (Min A)) B) = Min (insert m (A \<union> B))"
proof (cases "B = {}")
  case True
  then show ?thesis using assms by simp
next
  case False
  have "Min (insert m (A \<union> B)) = min m (min (Min A) (Min B))"
    using assms False by (simp add: Min_Un)
  moreover have "Min (insert (min m (Min A)) B) = min (min m (Min A)) (Min B)"
    using assms False by simp
  ultimately show ?thesis by (simp add: min.assoc)
qed

lemma Max_insert_max_Un:
  fixes m :: real
  assumes "finite A" "A \<noteq> {}" "finite B"
  shows "Max (insert (max m (Max A)) B) = Max (insert m (A \<union> B))"
proof (cases "B = {}")
  case True
  then show ?thesis using assms by simp
next
  case False
  have "Max (insert m (A \<union> B)) = max m (max (Max A) (Max B))"
    using assms False by (simp add: Max_Un)
  moreover have "Max (insert (max m (Max A)) B) = max (max m (Max A)) (Max B)"
    using assms False by simp
  ultimately show ?thesis by (simp add: max.assoc)
qed

lemma map_of_append_fresh:
  "k \<notin> fst ` set pre \<Longrightarrow> map_of (pre @ (k, v) # rest) k = Some v"
  by (induction pre) auto

lemma update_append_fresh:
  "k \<notin> fst ` set pre \<Longrightarrow> AList.update k w (pre @ (k, v) # rest) = pre @ (k, w) # rest"
  by (induction pre) auto

lemma normalize_loop_correct:
  assumes "distinct (map fst (pre @ rest))" "\<forall>e \<in> set rest. snd e \<noteq> []"
  shows "normalize_loop mean std (map fst rest) (pre @ rest) mn mx
         = Inr (pre @ map (renorm_entry mean std) rest,
                Min (insert mn (set (concat (map (snd \<circ> renorm_entry mean std) rest)))),
                Max (insert mx (set (concat (map (snd \<circ> renorm_entry mean std) rest)))))"
  using assms
proof (induction rest arbitrary: pre mn mx)
  case Nil
  then show ?case by simp
next
  case (Cons e rest)
  obtain k v where e: "e = (k, v)" by (cases e)
  let ?w = "map (\<lambda>x. (x - mean) / std) v"
  have fresh: "k \<notin> fst ` set pre" using Cons.prems(1) e by auto
  have vne: "v \<noteq> []" using Cons.prems(2) e by simp
  then have wne: "?w \<noteq> []" by simp
  have d: "distinct (map fst ((pre @ [(k, ?w)]) @ rest))" using Cons.prems(1) e by simp
  have r: "\<forall>e \<in> set rest. snd e \<noteq> []" using Cons.prems(2) by simp
  have IH: "normalize_loop mean std (map fst rest) ((pre @ [(k, ?w)]) @ rest)
              (min mn (Min (set ?w))) (max mx (Max (set ?w)))
         = Inr ((pre @ [(k, ?w)]) @ map (renorm_entry mean std) rest,
                Min (insert (min mn (Min (set ?w))) (set (concat (map (snd \<circ> renorm_entry mean std) rest)))),
                Max (insert (max mx (Max (set ?w))) (set (concat (map (snd \<circ> renorm_entry mean std) rest)))))"
    by (rule Cons.IH [OF d r])
  have split: "set (concat (map (snd \<circ> renorm_entry mean std) (e # rest)))
               = set ?w \<union> set (concat (map (snd \<circ> renorm_entry mean std) rest))"
    by (simp add: e renorm_entry_def)
  have wset: "finite (set ?w)" "set ?w \<noteq> {}" using wne by simp_all
  have mn_eq: "Min (insert (min mn (Min (set ?w))) (set (concat (map (snd \<circ> renorm_entry mean std) rest))))
             = Min (insert mn (set (concat (map (snd \<circ> renorm_entry mean std) (e # rest)))))"
    unfolding split by (rule Min_insert_min_Un [OF wset]) simp
  have mx_eq: "Max (insert (max mx (Max (set ?w))) (set (concat (map (snd \<circ> renorm_entry mean std) rest))))
             = Max (insert mx (set (concat (map (snd \<circ> renorm_entry mean std) (e # rest)))))"
    unfolding split by (rule Max_insert_max_Un [OF wset]) simp
  have step: "normalize_loop mean std (map fst (e # rest)) (pre @ e # rest) mn mx
        = normalize_loop mean std (map fst rest) ((pre @ [(k, ?w)]) @ rest)
              (min mn (Min (set ?w))) (max mx (Max (set ?w)))"
  proof -
    have mo: "map_of (pre @ (k, v) # rest) k = Some v"
      using fresh by (rule map_of_append_fresh)
    have up: "AList.update k ?w (pre @ (k, v) # rest) = pre @ (k, ?w) # rest"
      using fresh by (rule update_append_fresh)
    have pm: "py_max ?w = Inr (Max (set ?w))" "py_min ?w = Inr (Min (set ?w))"
      by (rule py_max_Max [OF wne], rule py_min_Min [OF wne])
    show ?thesis
      unfolding e list.map fst_conv normalize_loop.simps mo option.case Let_def up pm sum.case
      by simp
  qed
  show ?case
    unfolding step IH mn_eq mx_eq by (simp add: e renorm_entry_def)
qed


text \<open>
  Claim C9. For a directory of distinct, non-empty energy files (at least one) and a
  non-zero \<open>std\<close>, with all transformed values in the range of a double, the pass
  completes; afterwards every element of every file is \<open>(original - mean) / std\<close>, and
  the returned pair is the minimum and the maximum over all transformed elements of all
  files.
\<close>

theorem energy_renormalization:
  assumes "distinct (map fst dir)" and "dir \<noteq> []" and "\<forall>e \<in> set dir. snd e \<noteq> []"
    and "std \<noteq> 0"
    and "\<forall>x \<in> set (all_values (renormalized mean std dir)). - float64_max \<le> x \<and> x \<le> float64_max"
  shows "normalize_files dir mean std
         = Inr (renormalized mean std dir,
                Min (set (all_values (renormalized mean std dir))),
                Max (set (all_values (renormalized mean std dir))))"
proof -
  let ?S = "set (all_values (renormalized mean std dir))"
  have tr_eq: "map (renorm_entry mean std) dir = renormalized mean std dir"
    by (simp add: renormalized_def)
  have vals: "concat (map (snd \<circ> renorm_entry mean std) dir) = all_values (renormalized mean std dir)"
    by (simp add: all_values_def renormalized_def renorm_entry_def comp_def)
  obtain e where e: "e \<in> set dir" using assms(2) by (cases dir) auto
  then have "snd e \<noteq> []" using assms(3) by simp
  then obtain v where "v \<in> set (snd e)" by (cases "snd e") auto
  with e have "(v - mean) / std \<in> ?S"
    by (force simp: all_values_def renormalized_def renorm_entry_def)
  then have ne: "?S \<noteq> {}" by (metis empty_iff)
  have fin: "finite ?S" by simp
  have "Min ?S \<in> ?S" using fin ne by (rule Min_in)
  then have lo: "Min ?S \<le> float64_max" using assms(5) by blast
  have "Max ?S \<in> ?S" using fin ne by (rule Max_in)
  then have hi: "- float64_max \<le> Max ?S" using assms(5) by blast
  have mn: "Min (insert float64_max ?S) = Min ?S"
    using Min_insert [OF fin ne, of float64_max] lo by (simp only: min_absorb2)
  have mx: "Max (insert (- float64_max) ?S) = Max ?S"
    using Max_insert [OF fin ne, of "- float64_max"] hi by (simp only: max_absorb2)
  have "normalize_files dir mean std
        = normalize_loop mean std (map fst dir) ([] @ dir) float64_max (- float64_max)"
    by (simp add: normalize_files_def)
  also have "\<dots> = Inr ([] @ map (renorm_entry mean std) dir,
                Min (insert float64_max (set (concat (map (snd \<circ> renorm_entry mean std) dir)))),
                Max (insert (- float64_max) (set (concat (map (snd \<circ> renorm_entry mean std) dir)))))"
    using assms(1,3) by (intro normalize_loop_correct) simp_all
  finally show ?thesis
    unfolding vals mn mx tr_eq by simp
qed

theorem energy_renormalization_witness:
  "distinct (map fst [(''a'', [1, 3 :: real]), (''b'', [5])])
   \<and> (1 :: real) \<noteq> 0
   \<and> normalize_files [(''a'', [1, 3]), (''b'', [5])] 2 1 = Inr ([(''a'', [- 1, 1]), (''b'', [3])], - 1, 3)"
  using energy_renormalization [of "[(''a'', [1, 3]), (''b'', [5])]" 1 2]
  by (simp add: renormalized_def renorm_entry_def all_values_def float64_max_def)


section \<open>Properties of the utterance processor and of whole runs\<close>

lemma map_of_update_same: "map_of (AList.update k v al) k = Some v"
  by (simp add: update_conv')

lemma text_stage_result:
  "text_stage E F n p = (F1, tx) \<Longrightarrow>
     map_of (text_dir F1) n = Some tx \<and> wav_dir F1 = wav_dir F \<and> mel_dir F1 = mel_dir F
     \<and> attn_prior_dir F1 = attn_prior_dir F"
  by (auto simp: text_stage_def isfile_def Let_def map_of_update_same split: if_splits)

lemma wav_stage_result:
  "wav_stage C E F n p = Inr (F2, wav, d) \<Longrightarrow>
     text_dir F2 = text_dir F \<and> mel_dir F2 = mel_dir F \<and> attn_prior_dir F2 = attn_prior_dir F"
  by (auto simp: wav_stage_def Let_def split: if_splits sum.splits prod.splits)

lemma mel_stage_result:
  "mel_stage E F n en wav d = Inr (F3, ms, energy) \<Longrightarrow>
     text_dir F3 = text_dir F \<and> attn_prior_dir F3 = attn_prior_dir F
     \<and> (\<exists>m. map_of (mel_dir F3) n = Some m \<and> nrows m = ncols ms)"
  by (auto simp: mel_stage_def isfile_def Let_def mat_T_def map_of_update_same
      split: if_splits sum.splits prod.splits option.splits)

lemma f0_stage_result:
  "f0_stage E F n wav ms d = Inr (F4, f0) \<Longrightarrow>
     text_dir F4 = text_dir F \<and> mel_dir F4 = mel_dir F \<and> attn_prior_dir F4 = attn_prior_dir F"
  by (auto simp: f0_stage_def Let_def split: if_splits option.splits)

lemma attn_prior_stage_result:
  "attn_prior_stage C F n ms tx = (F5, A) \<Longrightarrow> \<not> isfile (attn_prior_dir F) n \<Longrightarrow>
     text_dir F5 = text_dir F \<and> mel_dir F5 = mel_dir F
     \<and> map_of (attn_prior_dir F5) n = Some A
     \<and> A = beta_binomial_prior_distribution (ncols ms) (length tx) (beta_binomial_scaling_factor C)"
  by (auto simp: attn_prior_stage_def Let_def map_of_update_same)

lemma process_utterance_stages:
  assumes "process_utterance C E F raw_text wav_path speaker basename = Inr (F', r)"
  shows "\<exists>F1 tx F2 wav d F3 ms en F4 f0 A m_min m_max.
      text_stage E F (speaker @ ''-text-'' @ basename @ ''.npy'') (phones_of E raw_text) = (F1, tx)
    \<and> wav_stage C E F1 (speaker @ ''-wav-'' @ basename @ ''.wav'') wav_path = Inr (F2, wav, d)
    \<and> mel_stage E F2 (speaker @ ''-mel-'' @ basename @ ''.npy'')
         (speaker @ ''-energy-'' @ basename @ ''.npy'') wav d = Inr (F3, ms, en)
    \<and> f0_stage E F3 (speaker @ ''-f0-'' @ basename @ ''.npy'') wav ms d = Inr (F4, f0)
    \<and> attn_prior_stage C F4 (speaker @ ''-attn_prior-'' @ basename @ ''.npy'') ms tx = (F', A)
    \<and> np_min_axis1 ms = Inr m_min \<and> np_max_axis1 ms = Inr m_max
    \<and> r = Some (join ''|'' [basename, speaker, phones_of E raw_text, raw_text], f0,
                 remove_outlier en, ncols ms, length wav, m_min, m_max)"
  using assms unfolding process_utterance_def Let_def
  by (auto split: sum.splits prod.splits)

lemma process_utterance_never_None:
  "process_utterance C E F raw_text wav_path speaker basename \<noteq> Inr (F', None)"
  using process_utterance_stages [of C E F raw_text wav_path speaker basename F' None]
  by auto

lemma wav_stage_cached:
  "isfile (wav_dir F) n \<Longrightarrow> wav_stage C E F n p = Inr (F, the (map_of (wav_dir F) n), None)"
  by (simp add: wav_stage_def)

lemma mel_stage_unbound:
  "\<not> isfile (mel_dir F) n \<Longrightarrow> mel_stage E F n en wav None = Inl UnboundLocalError"
  by (simp add: mel_stage_def split: prod.splits)

text \<open>Concrete runs over the sample corpus.\<close>

lemma process_sample:
  "process_utterance C0 E0 F0 ''hi'' ''c/wavs/a.wav'' ''L'' ''a''
   = Inr (F_scanned, Some (''a|L|{HH AY}|hi'', [100, 0], [1, 3], 2, 4, [5], [6]))"
  by code_simp

lemma process_short:
  "process_utterance C0 E0 F0 ''hi'' ''c/wavs/s.wav'' ''L'' ''s'' = Inl ValueError"
  by code_simp

lemma scan_first:
  "scan_lines C0 E0 None (F0, init_acc C0) (readlines M0) = Inr (F_scanned, A_first)"
  by code_simp

lemma scan_short: "scan_lines C0 E0 None (F0, init_acc C0) (readlines M1) = Inl ValueError"
  by code_simp

lemma prior_first: "val_prior_names F0 = None"
  by (simp add: val_prior_names_def F0_def)

lemma prior_second: "val_prior_names F_first = Some [''a'']"
  by code_simp

lemma scan_second:
  "scan_lines C0 E0 (Some [''a'']) (F_first, init_acc C0) (readlines M0) = Inr (F_first, A_second)"
  by code_simp

lemma f0_stats_sample: "compute_f0_stats [[100, 0]] = Inr (Fin 100, Fin 0)"
  by (simp add: compute_f0_stats_def np_mean_def np_std_def)

lemma scale_unit: "scale_attr \<lparr>n_samples_seen = n, mean_attr = m, var_attr = 1\<rparr> = 1"
  by (simp add: scale_attr_def)

lemma normalize_first:
  "normalize_files [(''L-energy-a.npy'', [1, 3])] 2 1
   = Inr ([(''L-energy-a.npy'', [- 1, 1])], - 1, 1)"
  by (simp add: normalize_files_def float64_max_def)

lemma normalize_second:
  "normalize_files [(''L-energy-a.npy'', [- 1, 1])] 0 1
   = Inr ([(''L-energy-a.npy'', [- 1, 1])], - 1, 1)"
  by (simp add: normalize_files_def float64_max_def)

lemma energy_first:
  "compute_energy_stats C0 F_scanned (energy_scaler A_first)
   = Inr (F_scanned\<lparr>energy_dir := [(''L-energy-a.npy'', [- 1, 1])]\<rparr>, - 1, 1, 2, 1)"
  by (simp add: compute_energy_stats_def C0_def A_first_def scale_unit F_scanned_def
        normalize_first)

lemma energy_second:
  "compute_energy_stats C0 F_first (energy_scaler A_second) = Inr (F_first, - 1, 1, 0, 1)"
  by (simp add: compute_energy_stats_def C0_def A_second_def scale_unit F_first_def
        F_scanned_def normalize_second)

lemma A_first_fields:
  "acc_out A_first = [''a|L|{HH AY}|hi'']" "acc_train A_first = []" "acc_val A_first = []"
  "f0s A_first = [[100, 0]]" "mel_min A_first = [Fin 5]" "mel_max A_first = [Fin 6]"
  "max_seq_len A_first = 2"
  by (simp_all add: A_first_def)

lemma A_second_fields:
  "acc_out A_second = []" "acc_train A_second = []" "acc_val A_second = [''a|L|{HH AY}|hi'']"
  "f0s A_second = [[100, 0]]" "mel_min A_second = [Fin 5]" "mel_max A_second = [Fin 6]"
  "max_seq_len A_second = 2"
  by (simp_all add: A_second_def)

lemma sample_fields: "dataset C0 = ''L''" "val_size C0 = 1" "shuffle E0 = rev"
  by (simp_all add: C0_def E0_def)

lemma run_first: "run_pipeline C0 E0 M0 F0 = Inr (F_first, [''a|L|{HH AY}|hi''])"
  unfolding run_pipeline_def prior_first build_from_path_def Let_def scan_first sum.case prod.case
  by (simp add: A_first_fields f0_stats_sample energy_first sample_fields F_first_def
        stats_first_def write_lines_def)

lemma run_short: "run_pipeline C0 E0 M1 F0 = Inl ValueError"
  unfolding run_pipeline_def prior_first build_from_path_def Let_def scan_short sum.case
  by (rule refl)

lemma F_second_eq:
  "F_first\<lparr>speakers_json := Some [(''L'', 0)],
           stats_json := Some \<lparr>stats_f0 = [Fin 100, Fin 0], stats_energy = [- 1, 1, 0, 1],
                                spec_min = [Fin 5], spec_max = [Fin 6], stats_max_seq_len = 2\<rparr>,
           train_txt := Some [], val_txt := Some ''a|L|{HH AY}|hi\<newline>''\<rparr> = F_second"
  by (simp add: F_second_def F_first_def stats_first_def F_scanned_def)

lemma run_second: "run_pipeline C0 E0 M0 F_first = Inr (F_second, [])"
proof -
  have "run_pipeline C0 E0 M0 F_first
        = Inr (F_first\<lparr>speakers_json := Some [(''L'', 0)],
           stats_json := Some \<lparr>stats_f0 = [Fin 100, Fin 0], stats_energy = [- 1, 1, 0, 1],
                                spec_min = [Fin 5], spec_max = [Fin 6], stats_max_seq_len = 2\<rparr>,
           train_txt := Some [], val_txt := Some ''a|L|{HH AY}|hi\<newline>''\<rparr>, [])"
    unfolding run_pipeline_def prior_second build_from_path_def Let_def scan_second
      sum.case prod.case
    by (simp add: A_second_fields f0_stats_sample energy_second sample_fields write_lines_def)
  then show ?thesis by (simp only: F_second_eq)
qed

text \<open>
  Claim C1. After a successful call that computes the alignment prior, the stored prior
  has one row per text id and every row has one entry per mel frame, where the number
  of mel frames is the number of rows of the stored (frame-major) mel matrix and the
  fourth component of the returned value: the generator is called with the frame count
  as its phoneme count and the text length as its frame count. The claim states the
  transposed shape.
\<close>

theorem alignment_prior_axes:
  assumes "process_utterance C E F raw_text wav_path speaker basename
           = Inr (F', Some (info, f0, energy, n_mel, n_wav, m_min, m_max))"
    and "\<not> isfile (attn_prior_dir F) (speaker @ ''-attn_prior-'' @ basename @ ''.npy'')"
  shows "\<exists>attn_prior text_ids mel.
      map_of (attn_prior_dir F') (speaker @ ''-attn_prior-'' @ basename @ ''.npy'')
        = Some attn_prior
    \<and> map_of (text_dir F') (speaker @ ''-text-'' @ basename @ ''.npy'') = Some text_ids
    \<and> map_of (mel_dir F') (speaker @ ''-mel-'' @ basename @ ''.npy'') = Some mel
    \<and> nrows mel = n_mel
    \<and> length attn_prior = length text_ids
    \<and> (\<forall>row \<in> set attn_prior. length row = n_mel)"
proof -
  from process_utterance_stages [OF assms(1)]
  obtain F1 tx F2 wav d F3 ms en F4 f0' A mn mx where
        ts: "text_stage E F (speaker @ ''-text-'' @ basename @ ''.npy'') (phones_of E raw_text)
             = (F1, tx)"
    and ws: "wav_stage C E F1 (speaker @ ''-wav-'' @ basename @ ''.wav'') wav_path
             = Inr (F2, wav, d)"
    and ms: "mel_stage E F2 (speaker @ ''-mel-'' @ basename @ ''.npy'')
               (speaker @ ''-energy-'' @ basename @ ''.npy'') wav d = Inr (F3, ms, en)"
    and fs: "f0_stage E F3 (speaker @ ''-f0-'' @ basename @ ''.npy'') wav ms d = Inr (F4, f0')"
    and as: "attn_prior_stage C F4 (speaker @ ''-attn_prior-'' @ basename @ ''.npy'') ms tx
             = (F', A)"
    and n: "n_mel = ncols ms"
    by auto
  note t = text_stage_result [OF ts]
  note w = wav_stage_result [OF ws]
  note m = mel_stage_result [OF ms]
  note f = f0_stage_result [OF fs]
  have nc: "\<not> isfile (attn_prior_dir F4) (speaker @ ''-attn_prior-'' @ basename @ ''.npy'')"
    using assms(2) t w m f by simp
  note a = attn_prior_stage_result [OF as nc]
  obtain mel where mel: "map_of (mel_dir F3) (speaker @ ''-mel-'' @ basename @ ''.npy'') = Some mel"
      "nrows mel = ncols ms"
    using m by blast
  have 1: "map_of (attn_prior_dir F') (speaker @ ''-attn_prior-'' @ basename @ ''.npy'') = Some A"
    using a by simp
  have 2: "map_of (text_dir F') (speaker @ ''-text-'' @ basename @ ''.npy'') = Some tx"
    using a f m w t by simp
  have 3: "map_of (mel_dir F') (speaker @ ''-mel-'' @ basename @ ''.npy'') = Some mel"
    using a f mel by simp
  have 4: "length A = length tx"
    using a by (simp add: bbpd_length)
  have 5: "\<forall>row \<in> set A. length row = n_mel"
    using a n by (auto dest: bbpd_row_length)
  show ?thesis
    using 1 2 3 4 5 mel(2) n by auto
qed

theorem alignment_prior_axes_witness:
  "\<not> isfile (attn_prior_dir F0) (''L'' @ ''-attn_prior-'' @ ''a'' @ ''.npy'')
   \<and> process_utterance C0 E0 F0 ''hi'' ''c/wavs/a.wav'' ''L'' ''a''
       = Inr (F_scanned, Some (''a|L|{HH AY}|hi'', [100, 0], [1, 3], 2, 4, [5], [6]))
   \<and> map_of (attn_prior_dir F_scanned) ''L-attn_prior-a.npy''
       = Some [[3 / 5, 3 / 10], [3 / 10, 2 / 5], [1 / 10, 3 / 10]]
   \<and> map_of (text_dir F_scanned) ''L-text-a.npy'' = Some [1, 2, 3]
   \<and> (\<exists>attn_prior text_ids mel.
        map_of (attn_prior_dir F_scanned) (''L'' @ ''-attn_prior-'' @ ''a'' @ ''.npy'')
          = Some attn_prior
      \<and> map_of (text_dir F_scanned) (''L'' @ ''-text-'' @ ''a'' @ ''.npy'') = Some text_ids
      \<and> map_of (mel_dir F_scanned) (''L'' @ ''-mel-'' @ ''a'' @ ''.npy'') = Some mel
      \<and> nrows mel = 2
      \<and> length attn_prior = length text_ids
      \<and> (\<forall>row \<in> set attn_prior. length row = 2))"
proof -
  have nc: "\<not> isfile (attn_prior_dir F0) (''L'' @ ''-attn_prior-'' @ ''a'' @ ''.npy'')"
    by (simp add: isfile_def F0_def)
  show ?thesis
    using nc process_sample alignment_prior_axes [OF process_sample nc]
    by (simp add: F_scanned_def)
qed

text \<open>
  Claim C4. Utterance \<open>s\<close> trims to one sample, less than one hop, so its mel matrix has
  no frame. Processing it raises (the per-channel minimum of a matrix without columns)
  instead of returning \<^verbatim>\<open>None\<close>; the exception leaves the scan, and the run over \<open>s\<close>
  and \<open>a\<close> ends with the exception, although the run over \<open>a\<close> alone completes.
\<close>

theorem degenerate_utterance_aborts_run:
  "process_utterance C0 E0 F0 ''hi'' ''c/wavs/s.wav'' ''L'' ''s'' = Inl ValueError
   \<and> run_pipeline C0 E0 M1 F0 = Inl ValueError
   \<and> run_pipeline C0 E0 M0 F0 = Inr (F_first, [''a|L|{HH AY}|hi''])"
  by (intro conjI process_short run_short run_first)

text \<open>
  Claim C5. With the waveform artifact present and the mel artifact absent, the call
  raises: the frame count \<^verbatim>\<open>duration\<close> is assigned only where the waveform is computed,
  and the mel stage reads it.
\<close>

theorem cached_wav_without_mel_raises:
  assumes "isfile (wav_dir F) (speaker @ ''-wav-'' @ basename @ ''.wav'')"
      and "\<not> isfile (mel_dir F) (speaker @ ''-mel-'' @ basename @ ''.npy'')"
  shows "process_utterance C E F raw_text wav_path speaker basename = Inl UnboundLocalError"
proof -
  obtain F1 tx where ts: "text_stage E F (speaker @ ''-text-'' @ basename @ ''.npy'')
      (phones_of E raw_text) = (F1, tx)"
    by (cases "text_stage E F (speaker @ ''-text-'' @ basename @ ''.npy'') (phones_of E raw_text)")
  have w: "wav_dir F1 = wav_dir F" and m: "mel_dir F1 = mel_dir F"
    using text_stage_result [OF ts] by simp_all
  have ws: "wav_stage C E F1 (speaker @ ''-wav-'' @ basename @ ''.wav'') wav_path
            = Inr (F1, the (map_of (wav_dir F1) (speaker @ ''-wav-'' @ basename @ ''.wav'')), None)"
    using assms(1) w by (intro wav_stage_cached) simp
  have ms: "mel_stage E F1 (speaker @ ''-mel-'' @ basename @ ''.npy'')
              (speaker @ ''-energy-'' @ basename @ ''.npy'')
              (the (map_of (wav_dir F1) (speaker @ ''-wav-'' @ basename @ ''.wav''))) None
            = Inl UnboundLocalError"
    using assms(2) m by (intro mel_stage_unbound) simp
  show ?thesis
    unfolding process_utterance_def Let_def ts prod.case ws sum.case ms by simp
qed

theorem cached_wav_without_mel_raises_witness:
  "isfile (wav_dir F_wav_only) ''L-wav-a.wav''
   \<and> \<not> isfile (mel_dir F_wav_only) ''L-mel-a.npy''
   \<and> process_utterance C0 E0 F_wav_only ''hi'' ''c/wavs/a.wav'' ''L'' ''a''
       = Inl UnboundLocalError"
  using cached_wav_without_mel_raises [of F_wav_only "''L''" "''a''" C0 E0 "''hi''" "''c/wavs/a.wav''"]
  by (simp add: F_wav_only_def F0_def isfile_def)

text \<open>
  Claim C6. A first run over \<open>M0\<close> from the empty output directory, and a second run over
  the same manifest from the directory the first run left. The second scan reads the
  energy file that the first run overwrote with normalized values, so the second
  \<^verbatim>\<open>stats.json\<close> records an energy mean of \<open>0\<close> where the first recorded \<open>2\<close>: the two files
  differ.
\<close>

theorem rerun_changes_stats:
  "run_pipeline C0 E0 M0 F0 = Inr (F_first, [''a|L|{HH AY}|hi''])
   \<and> run_pipeline C0 E0 M0 F_first = Inr (F_second, [])
   \<and> map_option stats_energy (stats_json F_first) = Some [- 1, 1, 2, 1]
   \<and> map_option stats_energy (stats_json F_second) = Some [- 1, 1, 0, 1]
   \<and> stats_json F_second \<noteq> stats_json F_first"
proof (intro conjI)
  show "run_pipeline C0 E0 M0 F0 = Inr (F_first, [''a|L|{HH AY}|hi''])"
    by (rule run_first)
  show "run_pipeline C0 E0 M0 F_first = Inr (F_second, [])"
    by (rule run_second)
  show "map_option stats_energy (stats_json F_first) = Some [- 1, 1, 2, 1]"
    by (simp add: F_first_def stats_first_def)
  show "map_option stats_energy (stats_json F_second) = Some [- 1, 1, 0, 1]"
    by (simp add: F_second_def stats_first_def)
  show "stats_json F_second \<noteq> stats_json F_first"
    by (simp add: F_second_def F_first_def stats_first_def)
qed

end
